theory Spec2Isabelle
  imports Main
begin

section \<open>The router reboot script (main.py) as a trace-producing program\<close>

text \<open>
  The script is a straight line of calls into Selenium, the file system, the clock and
  the logger, wrapped in Python's exception handling. The embedding keeps the control
  flow of the source and makes every effect explicit: each call to the outside is
  answered by a \<open>world\<close> (which sees the history so far) and is recorded, with its
  outcome, in a trace; an exception is a value \<open>Inl\<close> of the result.
\<close>

subsection \<open>Exceptions\<close>

text \<open>
  The exception classes the source names or can meet. \<open>WebDriverException\<close> stands for
  any Selenium exception other than the three subclasses listed; \<open>OtherException\<close> for
  any other subclass of \<open>Exception\<close> (\<open>OSError\<close>, a urllib3 error, ...).
  \<open>SystemExit\<close>, raised by \<open>exit(n)\<close>, is a \<open>BaseException\<close> and not an \<open>Exception\<close>.
\<close>

datatype exc =
    TimeoutException
  | InvalidSelectorException
  | ElementClickInterceptedException
  | WebDriverException
  | ValueError
  | RuntimeError string
  | OtherException

fun is_WebDriverException :: "exc \<Rightarrow> bool" where
  "is_WebDriverException TimeoutException = True"
| "is_WebDriverException InvalidSelectorException = True"
| "is_WebDriverException ElementClickInterceptedException = True"
| "is_WebDriverException WebDriverException = True"
| "is_WebDriverException _ = False"

datatype raised = Exc exc | SystemExit nat

subsection \<open>Calls, log records and events\<close>

datatype By = ID | XPATH | CSS_SELECTOR

record options =
  arguments :: "string list"
  accept_insecure_certs :: bool

text \<open>
  The operations on the outside that can raise. A wait carries its locator and its
  timeout in seconds; an operation on an element carries the locator the element was
  found by. \<open>Pause\<close> is \<open>time.sleep(DEBUG_PAUSE_SECONDS)\<close>, which raises OverflowError on
  a value too large for the platform.
\<close>

datatype call =
    Remote string options
  | Get string
  | UntilVisible By string nat
  | UntilInvisible By string nat
  | UntilNotPresent By string nat
  | UntilClickable By string nat
  | Clear By string
  | SendKeys By string string
  | FindElement By string
  | Click By string
  | ExecuteScript string By string
  | Makedirs string
  | SaveScreenshot string
  | OpenFile string
  | PageSource
  | WriteFile string string
  | CloseFile string
  | Pause int
  | Quit

datatype level = INFO | WARNING | ERROR | CRITICAL

datatype logmsg =
    MissingEnvironment
  | OverlayMayStillBeVisible nat
  | WaitingFor string
  | SuccessfullyClicked string
  | ErrorFindingOrClicking string exc
  | SeleniumNotReady nat nat exc
  | CouldNotConnect nat
  | SavingDebugArtifacts string
  | SavedScreenshot string
  | SavedPageSource string
  | FailedToSaveDebugArtifacts exc
  | OpeningRouterAdminPage string
  | LoginSuccessful
  | RebootCommandSent
  | AutomationFailed exc
  | Pausing int
  | AutomationFinished

text \<open>
  \<open>Sleep\<close> is \<open>time.sleep\<close> on one of the literal delays of the source, in milliseconds;
  \<open>Now\<close> is the reading of \<open>datetime.now().strftime("%Y%m%d-%H%M%S")\<close>.
\<close>

datatype event =
    Log level logmsg
  | Call call "exc option"
  | Sleep nat
  | Now string

record world =
  int_builtin :: "string \<Rightarrow> int option"
  respond :: "event list \<Rightarrow> call \<Rightarrow> exc option"
  now :: "event list \<Rightarrow> string"
  page_source :: "event list \<Rightarrow> string"

datatype webdriver = WebDriver string

record pstate =
  trace :: "event list"
  driver :: "webdriver option"

subsection \<open>Statements\<close>

type_synonym 'a act = "pstate \<Rightarrow> (raised + 'a) \<times> pstate"

definition ret :: "'a \<Rightarrow> 'a act" where
  "ret x s = (Inr x, s)"

definition raise :: "raised \<Rightarrow> 'a act" where
  "raise e s = (Inl e, s)"

definition bind :: "'a act \<Rightarrow> ('a \<Rightarrow> 'b act) \<Rightarrow> 'b act" where
  "bind m f s = (case m s of (Inl e, s') \<Rightarrow> (Inl e, s') | (Inr x, s') \<Rightarrow> f x s')"

definition seq :: "unit act \<Rightarrow> 'a act \<Rightarrow> 'a act" where
  "seq m k = bind m (\<lambda>_. k)"

fun seqs :: "unit act list \<Rightarrow> unit act" where
  "seqs [] = ret ()"
| "seqs (m # ms) = seq m (seqs ms)"

definition emit :: "event \<Rightarrow> pstate \<Rightarrow> pstate" where
  "emit ev s = s\<lparr>trace := trace s @ [ev]\<rparr>"

definition logger :: "level \<Rightarrow> logmsg \<Rightarrow> unit act" where
  "logger lvl msg s = (Inr (), emit (Log lvl msg) s)"

definition sleep :: "nat \<Rightarrow> unit act" where
  "sleep ms s = (Inr (), emit (Sleep ms) s)"

definition call :: "world \<Rightarrow> call \<Rightarrow> unit act" where
  "call w c s =
     (case respond w (trace s) c of
        None \<Rightarrow> (Inr (), emit (Call c None) s)
      | Some e \<Rightarrow> (Inl (Exc e), emit (Call c (Some e)) s))"

definition exit :: "nat \<Rightarrow> 'a act" where
  "exit n = raise (SystemExit n)"

text \<open>\<open>try: m  except <classes>: h\<close>; a \<open>SystemExit\<close> is caught by none of the handlers
  of the source, which all name subclasses of \<open>Exception\<close>.\<close>

definition try_except :: "'a act \<Rightarrow> (exc \<Rightarrow> bool) \<Rightarrow> (exc \<Rightarrow> 'a act) \<Rightarrow> 'a act" where
  "try_except m catches h s =
     (case m s of
        (Inl (Exc e), s') \<Rightarrow> if catches e then h e s' else (Inl (Exc e), s')
      | (Inl (SystemExit n), s') \<Rightarrow> (Inl (SystemExit n), s')
      | (Inr x, s') \<Rightarrow> (Inr x, s'))"

text \<open>\<open>try: m  finally: f\<close>: \<open>f\<close> always runs; what it raises replaces the outcome of \<open>m\<close>.\<close>

definition try_finally :: "'a act \<Rightarrow> unit act \<Rightarrow> 'a act" where
  "try_finally m f s =
     (case m s of (r, s') \<Rightarrow>
        (case f s' of (Inl e, s'') \<Rightarrow> (Inl e, s'') | (Inr _, s'') \<Rightarrow> (r, s'')))"

subsection \<open>Configuration (lines 21 to 38)\<close>

record globals =
  SELENIUM_REMOTE_URL :: string
  ROUTER_ADMIN_URL :: string
  ROUTER_PASSWORD :: string
  DEBUG_PAUSE_SECONDS :: int
  ERROR_ARTIFACTS_DIR :: string

definition chrome_options :: options where
  "chrome_options =
     \<lparr>arguments = [''--no-sandbox'', ''--disable-dev-shm-usage'', ''--ignore-certificate-errors''],
      accept_insecure_certs = True\<rparr>"

text \<open>Python's truth value of \<open>os.environ.get(k)\<close>: \<open>None\<close> and the empty string are false.\<close>

fun truthy :: "string option \<Rightarrow> bool" where
  "truthy None = False"
| "truthy (Some v) = (v \<noteq> [])"

subsection \<open>Helper functions (lines 41 to 83)\<close>

definition panel_mask :: string where
  "panel_mask = ''div.panel-mask''"

definition wait_for_overlay_to_disappear :: "world \<Rightarrow> nat \<Rightarrow> unit act" where
  "wait_for_overlay_to_disappear w timeout =
     try_except (call w (UntilNotPresent CSS_SELECTOR panel_mask timeout))
       (\<lambda>e. e = TimeoutException)
       (\<lambda>e. logger WARNING (OverlayMayStillBeVisible timeout))"

definition scroll_into_view :: string where
  "scroll_into_view = ''arguments[0].scrollIntoView({block: 'center'});''"

definition wait_and_click :: "world \<Rightarrow> By \<Rightarrow> string \<Rightarrow> string \<Rightarrow> nat \<Rightarrow> bool act" where
  "wait_and_click w b v desc timeout =
     seq (logger INFO (WaitingFor desc))
       (try_except
          (seq (call w (UntilClickable b v timeout))
          (seq (call w (ExecuteScript scroll_into_view b v))
          (seq (sleep 500)
          (seq (call w (Click b v))
          (seq (logger INFO (SuccessfullyClicked desc))
               (ret True))))))
          (\<lambda>e. e = TimeoutException \<or> e = InvalidSelectorException)
          (\<lambda>e. seq (logger ERROR (ErrorFindingOrClicking desc e)) (ret False)))"

text \<open>The loop over \<open>range(retries)\<close>, on the attempts that remain.\<close>

fun create_driver_loop ::
  "world \<Rightarrow> string \<Rightarrow> options \<Rightarrow> nat \<Rightarrow> nat \<Rightarrow> nat list \<Rightarrow> webdriver act" where
  "create_driver_loop w url opts retries delay [] =
     seq (logger CRITICAL (CouldNotConnect retries)) (exit 2)"
| "create_driver_loop w url opts retries delay (attempt # rest) =
     try_except
       (seq (call w (Remote url opts)) (ret (WebDriver url)))
       is_WebDriverException
       (\<lambda>e. seq (logger WARNING (SeleniumNotReady (attempt + 1) retries e))
            (seq (sleep (delay * 1000))
                 (create_driver_loop w url opts retries delay rest)))"

definition create_driver_with_retry ::
  "world \<Rightarrow> string \<Rightarrow> options \<Rightarrow> nat \<Rightarrow> nat \<Rightarrow> webdriver act" where
  "create_driver_with_retry w url opts retries delay =
     create_driver_loop w url opts retries delay [0..<retries]"

text \<open>\<open>os.path.join(dir, name)\<close> for a file name that does not start with a slash.\<close>

definition path_join :: "string \<Rightarrow> string \<Rightarrow> string" where
  "path_join dir name =
     (if dir = [] then name
      else if last dir = CHR ''/'' then dir @ name
      else dir @ ''/'' @ name)"

definition read_clock :: "world \<Rightarrow> string act" where
  "read_clock w s = (Inr (now w (trace s)), emit (Now (now w (trace s))) s)"

definition get_page_source :: "world \<Rightarrow> string act" where
  "get_page_source w s =
     (case respond w (trace s) PageSource of
        None \<Rightarrow> (Inr (page_source w (trace s)), emit (Call PageSource None) s)
      | Some e \<Rightarrow> (Inl (Exc e), emit (Call PageSource (Some e)) s))"

text \<open>\<open>with open(path, "w", encoding="utf-8") as f: body\<close>: the file is closed on every
  way out of the body.\<close>

definition with_open :: "world \<Rightarrow> string \<Rightarrow> unit act \<Rightarrow> unit act" where
  "with_open w path body =
     seq (call w (OpenFile path)) (try_finally body (call w (CloseFile path)))"

definition save_debug_artifacts :: "world \<Rightarrow> globals \<Rightarrow> unit act" where
  "save_debug_artifacts w g =
     bind (read_clock w) (\<lambda>timestamp.
     seq (logger INFO (SavingDebugArtifacts (ERROR_ARTIFACTS_DIR g)))
       (try_except
          (let screenshot_path =
                 path_join (ERROR_ARTIFACTS_DIR g) (''error_'' @ timestamp @ ''.png'');
               source_path =
                 path_join (ERROR_ARTIFACTS_DIR g) (''error_src_'' @ timestamp @ ''.html'')
           in seqs
             [call w (Makedirs (ERROR_ARTIFACTS_DIR g)),
              call w (SaveScreenshot screenshot_path),
              logger INFO (SavedScreenshot screenshot_path),
              with_open w source_path
                (bind (get_page_source w) (\<lambda>src. call w (WriteFile source_path src))),
              logger INFO (SavedPageSource source_path)])
          (\<lambda>e. True)
          (\<lambda>e. logger ERROR (FailedToSaveDebugArtifacts e))))"

subsection \<open>Main execution (lines 86 to 134)\<close>

definition loginDialogPassword :: string where
  "loginDialogPassword = ''loginDialogPassword''"

definition loginDialogBtn :: string where
  "loginDialogBtn = ''loginDialogBtn''"

definition steps :: "(By \<times> string \<times> string) list" where
  "steps =
     [(XPATH, ''//div[@id='nav']//a[contains(text(), 'Advanced')]'', ''Advanced navbar item''),
      (XPATH, ''//div[contains(@class, 'cpe-set-nav')]//li[.//span[text()='System settings']]'',
         ''System settings menu''),
      (ID, ''btnReboot'', ''Reboot button''),
      (XPATH, ''//button[contains(@class, 'btn-primary') and contains(., 'Reboot')]'',
         ''Reboot confirmation 1''),
      (XPATH, ''//a[@data-id='ok' and contains(@class, 'btn-primary')]'',
         ''Reboot confirmation 2 (OK)'')]"

text \<open>The body of \<open>for i, (by, value, desc) in enumerate(steps)\<close>, on the pairs that remain.\<close>

fun run_steps :: "world \<Rightarrow> (nat \<times> By \<times> string \<times> string) list \<Rightarrow> unit act" where
  "run_steps w [] = ret ()"
| "run_steps w ((i, b, v, desc) # rest) =
     seq (if i > 0 then sleep 1000 else ret ())
       (bind (wait_and_click w b v desc 10) (\<lambda>clicked.
          if \<not> clicked then raise (Exc (RuntimeError (''Failed at step: '' @ desc)))
          else seq (if i = 0 then wait_for_overlay_to_disappear w 8 else ret ())
                 (run_steps w rest)))"

definition enumerate :: "'a list \<Rightarrow> (nat \<times> 'a) list" where
  "enumerate xs = zip [0..<length xs] xs"

definition assign_driver :: "webdriver \<Rightarrow> unit act" where
  "assign_driver d s = (Inr (), s\<lparr>driver := Some d\<rparr>)"

definition login :: "world \<Rightarrow> globals \<Rightarrow> unit act" where
  "login w g =
     seqs
       [call w (UntilVisible ID loginDialogPassword 15),
        call w (Clear ID loginDialogPassword),
        call w (SendKeys ID loginDialogPassword (ROUTER_PASSWORD g)),
        call w (FindElement ID loginDialogBtn),
        call w (Click ID loginDialogBtn),
        call w (UntilInvisible ID loginDialogPassword 15),
        logger INFO LoginSuccessful,
        wait_for_overlay_to_disappear w 8]"

definition main_try :: "world \<Rightarrow> globals \<Rightarrow> unit act" where
  "main_try w g =
     bind (create_driver_with_retry w (SELENIUM_REMOTE_URL g) chrome_options 10 2) (\<lambda>d.
     seqs
       [assign_driver d,
        logger INFO (OpeningRouterAdminPage (ROUTER_ADMIN_URL g)),
        call w (Get (ROUTER_ADMIN_URL g)),
        login w g,
        run_steps w (enumerate steps),
        logger INFO RebootCommandSent])"

definition main_except :: "world \<Rightarrow> globals \<Rightarrow> exc \<Rightarrow> unit act" where
  "main_except w g e =
     seq (logger ERROR (AutomationFailed e))
       (seq (\<lambda>s. (if driver s \<noteq> None
                  then seq (save_debug_artifacts w g)
                         (if DEBUG_PAUSE_SECONDS g > 0
                          then seq (logger INFO (Pausing (DEBUG_PAUSE_SECONDS g)))
                                 (call w (Pause (DEBUG_PAUSE_SECONDS g)))
                          else ret ())
                  else ret ()) s)
          (exit 1))"

definition main_finally :: "world \<Rightarrow> unit act" where
  "main_finally w =
     seq (\<lambda>s. (if driver s \<noteq> None then call w Quit else ret ()) s)
       (logger INFO AutomationFinished)"

definition main :: "world \<Rightarrow> globals \<Rightarrow> unit act" where
  "main w g =
     seq (\<lambda>s. (Inr (), s\<lparr>driver := None\<rparr>))
       (try_finally
          (try_except (main_try w g) (\<lambda>e. True) (main_except w g))
          (main_finally w))"

text \<open>The module from its first line to its last: the environment is read, the pause
  is parsed (\<open>int\<close> raises ValueError on a malformed value), the three required values
  are validated, and \<open>main()\<close> runs.\<close>

definition module :: "world \<Rightarrow> (string \<rightharpoonup> string) \<Rightarrow> unit act" where
  "module w environ =
     (let selenium_remote_url = environ ''SELENIUM_REMOTE_URL'';
          router_admin_url = environ ''ROUTER_ADMIN_URL'';
          router_password = environ ''ROUTER_PASSWORD''
      in case (case environ ''DEBUG_PAUSE_SECONDS'' of
                 None \<Rightarrow> Some 0 | Some v \<Rightarrow> int_builtin w v) of
           None \<Rightarrow> raise (Exc ValueError)
         | Some debug_pause_seconds \<Rightarrow>
             (let error_artifacts_dir =
                    (case environ ''ERROR_ARTIFACTS_DIR'' of
                       None \<Rightarrow> ''/app/errors'' | Some v \<Rightarrow> v)
              in if \<not> (truthy selenium_remote_url \<and> truthy router_admin_url
                        \<and> truthy router_password)
                 then seq (logger CRITICAL MissingEnvironment) (exit 1)
                 else main w
                        \<lparr>SELENIUM_REMOTE_URL = the selenium_remote_url,
                         ROUTER_ADMIN_URL = the router_admin_url,
                         ROUTER_PASSWORD = the router_password,
                         DEBUG_PAUSE_SECONDS = debug_pause_seconds,
                         ERROR_ARTIFACTS_DIR = error_artifacts_dir\<rparr>))"

text \<open>The exit status of the interpreter: \<open>SystemExit n\<close> gives \<open>n\<close>, an exception that
  nothing caught gives 1 (after the traceback), the end of the module gives 0.\<close>

fun exit_status :: "raised + unit \<Rightarrow> nat" where
  "exit_status (Inr _) = 0"
| "exit_status (Inl (SystemExit n)) = n"
| "exit_status (Inl (Exc e)) = 1"

definition initial :: pstate where
  "initial = \<lparr>trace = [], driver = None\<rparr>"

definition run :: "world \<Rightarrow> (string \<rightharpoonup> string) \<Rightarrow> nat \<times> event list" where
  "run w environ = (case module w environ initial of (r, s) \<Rightarrow> (exit_status r, trace s))"


subsection \<open>Observations on a trace\<close>

fun call_of :: "event \<Rightarrow> call list" where
  "call_of (Call c r) = [c]"
| "call_of _ = []"

definition calls :: "event list \<Rightarrow> call list" where
  "calls tr = concat (map call_of tr)"

subsection \<open>Concrete worlds and environments\<close>

definition calm_world :: world where
  "calm_world = \<lparr>int_builtin = (\<lambda>v. None), respond = (\<lambda>h c. None),
     now = (\<lambda>h. ''20240101-120000''), page_source = (\<lambda>h. ''<html></html>'')\<rparr>"

definition env_no_password :: "string \<rightharpoonup> string" where
  "env_no_password = [''SELENIUM_REMOTE_URL'' \<mapsto> ''http://selenium:4444/wd/hub'',
     ''ROUTER_ADMIN_URL'' \<mapsto> ''http://192.168.31.1'', ''ROUTER_PASSWORD'' \<mapsto> []]"

definition overlay_stuck_world :: world where
  "overlay_stuck_world = calm_world\<lparr>respond := (\<lambda>h c.
     case c of UntilNotPresent b v t \<Rightarrow> Some TimeoutException | _ \<Rightarrow> None)\<rparr>"

definition nothing_clickable_world :: world where
  "nothing_clickable_world = calm_world\<lparr>respond := (\<lambda>h c.
     case c of UntilClickable b v t \<Rightarrow> Some TimeoutException | _ \<Rightarrow> None)\<rparr>"

section \<open>Properties\<close>

subsection \<open>Executing statements\<close>

lemma trace_emit [simp]: "trace (emit ev s) = trace s @ [ev]"
  by (simp add: emit_def)

lemma driver_emit [simp]: "driver (emit ev s) = driver s"
  by (simp add: emit_def)

lemma seq_logger [simp]: "seq (logger l m) k s = k (emit (Log l m) s)"
  by (simp add: seq_def bind_def logger_def)

lemma seq_sleep [simp]: "seq (sleep n) k s = k (emit (Sleep n) s)"
  by (simp add: seq_def bind_def sleep_def)

lemma seq_ret [simp]: "seq (ret ()) k s = k s"
  by (simp add: seq_def bind_def ret_def)

lemma seq_call:
  "seq (call w c) k s =
     (case respond w (trace s) c of
        None \<Rightarrow> k (emit (Call c None) s)
      | Some e \<Rightarrow> (Inl (Exc e), emit (Call c (Some e)) s))"
  by (simp add: seq_def bind_def call_def split: option.splits)

subsection \<open>Configuration\<close>

text \<open>
  C4. Whenever one of the three required environment values is absent or the empty
  string, the run ends with exit status 1 and its trace holds no call to the outside
  at all (no session is created, nothing is sent over the network): the trace is empty
  or holds the one critical log record.
\<close>

theorem missing_configuration_exits_1:
  assumes "k \<in> {''SELENIUM_REMOTE_URL'', ''ROUTER_ADMIN_URL'', ''ROUTER_PASSWORD''}"
    and "environ k = None \<or> environ k = Some []"
  shows "fst (run w environ) = 1 \<and> calls (snd (run w environ)) = []
         \<and> set (snd (run w environ)) \<subseteq> {Log CRITICAL MissingEnvironment}"
proof -
  have bad: "\<not> (truthy (environ ''SELENIUM_REMOTE_URL'') \<and> truthy (environ ''ROUTER_ADMIN_URL'')
                \<and> truthy (environ ''ROUTER_PASSWORD''))"
    using assms by auto
  show ?thesis
  proof (cases "case environ ''DEBUG_PAUSE_SECONDS'' of None \<Rightarrow> Some 0 | Some v \<Rightarrow> int_builtin w v")
    case None
    then show ?thesis
      by (simp add: run_def module_def raise_def initial_def calls_def)
  next
    case (Some n)
    then show ?thesis
      using bad
      by (simp add: run_def module_def raise_def exit_def initial_def calls_def Let_def)
  qed
qed

theorem missing_configuration_exits_1_witness:
  "''ROUTER_PASSWORD'' \<in> {''SELENIUM_REMOTE_URL'', ''ROUTER_ADMIN_URL'', ''ROUTER_PASSWORD''}
   \<and> (env_no_password ''ROUTER_PASSWORD'' = None \<or> env_no_password ''ROUTER_PASSWORD'' = Some [])
   \<and> fst (run calm_world env_no_password) = 1
   \<and> calls (snd (run calm_world env_no_password)) = []"
proof -
  have k: "''ROUTER_PASSWORD'' \<in> {''SELENIUM_REMOTE_URL'', ''ROUTER_ADMIN_URL'', ''ROUTER_PASSWORD''}"
    by simp
  have e: "env_no_password ''ROUTER_PASSWORD'' = None \<or> env_no_password ''ROUTER_PASSWORD'' = Some []"
    by (simp add: env_no_password_def)
  show ?thesis
    using k e missing_configuration_exits_1 [of "''ROUTER_PASSWORD''" env_no_password calm_world]
    by blast
qed


subsection \<open>The two helpers\<close>

lemma wait_and_click_clicks:
  assumes "respond w (trace s @ [Log INFO (WaitingFor desc)]) (UntilClickable b v t) = None"
    and "respond w (trace s @ [Log INFO (WaitingFor desc), Call (UntilClickable b v t) None])
           (ExecuteScript scroll_into_view b v) = None"
    and "respond w (trace s @ [Log INFO (WaitingFor desc), Call (UntilClickable b v t) None,
           Call (ExecuteScript scroll_into_view b v) None, Sleep 500]) (Click b v) = None"
  shows "wait_and_click w b v desc t s =
           (Inr True, s\<lparr>trace := trace s @ [Log INFO (WaitingFor desc),
              Call (UntilClickable b v t) None, Call (ExecuteScript scroll_into_view b v) None,
              Sleep 500, Call (Click b v) None, Log INFO (SuccessfullyClicked desc)]\<rparr>)"
  using assms
  by (simp add: wait_and_click_def try_except_def seq_call ret_def emit_def)

lemma wait_and_click_caught:
  assumes "respond w (trace s @ [Log INFO (WaitingFor desc)]) (UntilClickable b v t) = Some e"
    and "e = TimeoutException \<or> e = InvalidSelectorException"
  shows "wait_and_click w b v desc t s =
           (Inr False, s\<lparr>trace := trace s @ [Log INFO (WaitingFor desc),
              Call (UntilClickable b v t) (Some e),
              Log ERROR (ErrorFindingOrClicking desc e)]\<rparr>)"
  using assms
  by (auto simp add: wait_and_click_def try_except_def seq_call ret_def emit_def)

lemma wait_and_click_never_raises_caught:
  "fst (wait_and_click w b v desc t s) \<noteq> Inl (Exc TimeoutException)"
  "fst (wait_and_click w b v desc t s) \<noteq> Inl (Exc InvalidSelectorException)"
  by (simp_all add: wait_and_click_def try_except_def seq_call ret_def split: option.splits)

lemma run_steps_first_fails:
  assumes "wait_and_click w b v desc 10 s = (Inr False, s')"
  shows "run_steps w ((0, b, v, desc) # rest) s =
           (Inl (Exc (RuntimeError (''Failed at step: '' @ desc))), s')"
  using assms by (simp add: bind_def raise_def)

text \<open>
  C8. The guarded click, for every locator, description and timeout: when the wait for
  the element to be clickable (with the given timeout) succeeds and neither the scroll
  script nor the click raises, it has waited, scrolled the element to the centre, slept
  half a second and clicked, in this order, and returns True; when the wait times out
  it logs the error and returns False, it never raises TimeoutException; and its caller
  in the navigation loop, which passes the default timeout of 10 seconds, turns the
  False into the RuntimeError naming the step.
\<close>

theorem wait_and_click_contract:
  fixes w :: world and b :: By and v desc :: string and t :: nat and s :: pstate
  defines "h0 \<equiv> trace s @ [Log INFO (WaitingFor desc)]"
  defines "h1 \<equiv> h0 @ [Call (UntilClickable b v t) None]"
  defines "h2 \<equiv> h1 @ [Call (ExecuteScript scroll_into_view b v) None, Sleep 500]"
  shows "(respond w h0 (UntilClickable b v t) = None \<and>
          respond w h1 (ExecuteScript scroll_into_view b v) = None \<and>
          respond w h2 (Click b v) = None \<longrightarrow>
           wait_and_click w b v desc t s =
             (Inr True, s\<lparr>trace := h2 @ [Call (Click b v) None,
                 Log INFO (SuccessfullyClicked desc)]\<rparr>))
       \<and> (respond w h0 (UntilClickable b v t) = Some TimeoutException \<longrightarrow>
           wait_and_click w b v desc t s =
             (Inr False, s\<lparr>trace := h0 @ [Call (UntilClickable b v t) (Some TimeoutException),
                 Log ERROR (ErrorFindingOrClicking desc TimeoutException)]\<rparr>))
       \<and> fst (wait_and_click w b v desc t s) \<noteq> Inl (Exc TimeoutException)
       \<and> (t = 10 \<and> respond w h0 (UntilClickable b v t) = Some TimeoutException \<longrightarrow>
           run_steps w ((0, b, v, desc) # rest) s =
             (Inl (Exc (RuntimeError (''Failed at step: '' @ desc))),
              s\<lparr>trace := h0 @ [Call (UntilClickable b v t) (Some TimeoutException),
                 Log ERROR (ErrorFindingOrClicking desc TimeoutException)]\<rparr>))"
proof (intro conjI impI)
  assume "respond w h0 (UntilClickable b v t) = None \<and>
          respond w h1 (ExecuteScript scroll_into_view b v) = None \<and>
          respond w h2 (Click b v) = None"
  then show "wait_and_click w b v desc t s =
             (Inr True, s\<lparr>trace := h2 @ [Call (Click b v) None,
                 Log INFO (SuccessfullyClicked desc)]\<rparr>)"
    using wait_and_click_clicks [of w s desc b v t] by (simp add: h0_def h1_def h2_def)
next
  assume "respond w h0 (UntilClickable b v t) = Some TimeoutException"
  then show "wait_and_click w b v desc t s =
             (Inr False, s\<lparr>trace := h0 @ [Call (UntilClickable b v t) (Some TimeoutException),
                 Log ERROR (ErrorFindingOrClicking desc TimeoutException)]\<rparr>)"
    using wait_and_click_caught [of w s desc b v t TimeoutException] by (simp add: h0_def)
next
  show "fst (wait_and_click w b v desc t s) \<noteq> Inl (Exc TimeoutException)"
    by (rule wait_and_click_never_raises_caught)
next
  assume a: "t = 10 \<and> respond w h0 (UntilClickable b v t) = Some TimeoutException"
  then have t: "t = 10" by simp
  from a have r: "respond w (trace s @ [Log INFO (WaitingFor desc)]) (UntilClickable b v 10)
              = Some TimeoutException"
    unfolding h0_def t by simp
  have "wait_and_click w b v desc 10 s =
             (Inr False, s\<lparr>trace := h0 @ [Call (UntilClickable b v 10) (Some TimeoutException),
                 Log ERROR (ErrorFindingOrClicking desc TimeoutException)]\<rparr>)"
    using wait_and_click_caught [OF r] by (simp add: h0_def)
  from run_steps_first_fails [OF this] t
  show "run_steps w ((0, b, v, desc) # rest) s =
             (Inl (Exc (RuntimeError (''Failed at step: '' @ desc))),
              s\<lparr>trace := h0 @ [Call (UntilClickable b v t) (Some TimeoutException),
                 Log ERROR (ErrorFindingOrClicking desc TimeoutException)]\<rparr>)"
    by simp
qed

theorem wait_and_click_contract_witness:
  "respond nothing_clickable_world ([] @ [Log INFO (WaitingFor ''Reboot button'')])
     (UntilClickable ID ''btnReboot'' 10) = Some TimeoutException
   \<and> wait_and_click nothing_clickable_world ID ''btnReboot'' ''Reboot button'' 10 initial =
       (Inr False, initial\<lparr>trace := [Log INFO (WaitingFor ''Reboot button''),
          Call (UntilClickable ID ''btnReboot'' 10) (Some TimeoutException),
          Log ERROR (ErrorFindingOrClicking ''Reboot button'' TimeoutException)]\<rparr>)
   \<and> respond calm_world ([] @ [Log INFO (WaitingFor ''Reboot button'')])
     (UntilClickable ID ''btnReboot'' 10) = None
   \<and> fst (wait_and_click calm_world ID ''btnReboot'' ''Reboot button'' 10 initial) = Inr True"
proof -
  have a: "respond nothing_clickable_world h (UntilClickable ID ''btnReboot'' 10)
             = Some TimeoutException" for h
    by (simp add: nothing_clickable_world_def)
  have b: "respond calm_world h c = None" for h c
    by (simp add: calm_world_def)
  show ?thesis
    using wait_and_click_contract [of nothing_clickable_world initial "''Reboot button''"
        ID "''btnReboot''" 10 "[]"]
      wait_and_click_contract [of calm_world initial "''Reboot button''" ID "''btnReboot''" 10 "[]"]
    by (simp add: a b initial_def)
qed

text \<open>
  C9. The overlay wait, whenever its wait times out, logs the warning and returns
  normally, with nothing raised: the statement after it runs.
\<close>

theorem overlay_timeout_is_not_fatal:
  assumes "respond w (trace s) (UntilNotPresent CSS_SELECTOR panel_mask t) = Some TimeoutException"
  shows "wait_for_overlay_to_disappear w t s =
           (Inr (), s\<lparr>trace := trace s @
              [Call (UntilNotPresent CSS_SELECTOR panel_mask t) (Some TimeoutException),
               Log WARNING (OverlayMayStillBeVisible t)]\<rparr>)
         \<and> seq (wait_for_overlay_to_disappear w t) k s =
             k (s\<lparr>trace := trace s @
              [Call (UntilNotPresent CSS_SELECTOR panel_mask t) (Some TimeoutException),
               Log WARNING (OverlayMayStillBeVisible t)]\<rparr>)"
  using assms
  by (simp add: wait_for_overlay_to_disappear_def try_except_def call_def logger_def emit_def
      seq_def bind_def)

theorem overlay_timeout_is_not_fatal_witness:
  "respond overlay_stuck_world (trace initial) (UntilNotPresent CSS_SELECTOR panel_mask 8)
     = Some TimeoutException
   \<and> wait_for_overlay_to_disappear overlay_stuck_world 8 initial =
       (Inr (), initial\<lparr>trace := trace initial @
          [Call (UntilNotPresent CSS_SELECTOR panel_mask 8) (Some TimeoutException),
           Log WARNING (OverlayMayStillBeVisible 8)]\<rparr>)"
proof -
  have a: "respond overlay_stuck_world (trace initial) (UntilNotPresent CSS_SELECTOR panel_mask 8)
             = Some TimeoutException"
    by (simp add: overlay_stuck_world_def)
  show ?thesis
    using a overlay_timeout_is_not_fatal [OF a, of "logger INFO LoginSuccessful"] by simp
qed

end
